theory Spec2Isabelle
  imports Complex_Main "HOL-Library.AList" "HOL-Library.Sublist"
begin

section \<open>The Health Tracker service worker (core/service-worker.js)\<close>

text \<open>
  The worker is a set of event handlers over primitives of its host (the browser): the
  cache storage, the network, the console, the notification and the window-client
  interfaces. Each handler is embedded as a function from the event and the state of the
  host before the event to a \<open>run\<close>: the host calls the handler makes, in order, the
  cache storage once all the asynchronous work the handler started has settled, and the
  handler's outcome. The host primitives are modelled after the Service Worker and Fetch
  standards, as far as the handlers depend on them; what the host decides on its own (the
  network, whether a deletion succeeds, how a relative URL resolves, how a value prints)
  is a field of the record \<open>host\<close>.
\<close>

subsection \<open>JavaScript values\<close>

text \<open>
  Values that cross the worker's interfaces as data: push payloads parsed from JSON,
  message data, the data attached to a notification. \<open>JNum q\<close> is a number other than
  NaN; an object is the list of its own properties, one pair per property name.
\<close>

datatype jsval =
    JUndefined
  | JNull
  | JBool bool
  | JNaN
  | JNum rat
  | JStr string
  | JArr "jsval list"
  | JObj "(string \<times> jsval) list"

datatype js_error = TypeError | SyntaxError | InvalidStateError | HostError string

text \<open>ToBoolean: the values that \<open>if (v)\<close>, \<open>!v\<close> and \<open>v || w\<close> take as true.\<close>

fun truthy :: "jsval \<Rightarrow> bool" where
  "truthy JUndefined = False"
| "truthy JNull = False"
| "truthy (JBool b) = b"
| "truthy JNaN = False"
| "truthy (JNum q) = (q \<noteq> 0)"
| "truthy (JStr s) = (s \<noteq> [])"
| "truthy (JArr xs) = True"
| "truthy (JObj fs) = True"

text \<open>\<open>a || b\<close>\<close>

definition js_or :: "jsval \<Rightarrow> jsval \<Rightarrow> jsval" where
  "js_or a b = (if truthy a then a else b)"

definition nullish :: "jsval \<Rightarrow> bool" where
  "nullish v = (v = JUndefined \<or> v = JNull)"

text \<open>
  \<open>v.k\<close> for a value that is neither null nor undefined, and for the property names the
  worker reads (title, body, tag, type, reminderId, action, data), none of which is
  inherited from a prototype: an own property of an object, undefined otherwise.
\<close>

fun own_prop :: "jsval \<Rightarrow> string \<Rightarrow> jsval" where
  "own_prop (JObj fs) k = (case map_of fs k of Some v \<Rightarrow> v | None \<Rightarrow> JUndefined)"
| "own_prop v k = JUndefined"

text \<open>
  \<open>v.k\<close> and the destructuring \<open>const {k} = v\<close> in general: reading a property of null
  or undefined throws a TypeError.
\<close>

definition get_prop :: "jsval \<Rightarrow> string \<Rightarrow> js_error + jsval" where
  "get_prop v k = (if nullish v then Inl TypeError else Inr (own_prop v k))"

subsection \<open>Strings and URLs\<close>

text \<open>\<open>s.startsWith(p)\<close> and \<open>s.includes(p)\<close>\<close>

definition startsWith :: "string \<Rightarrow> string \<Rightarrow> bool" where
  "startsWith s p = prefix p s"

fun str_includes :: "string \<Rightarrow> string \<Rightarrow> bool" where
  "str_includes [] p = (p = [])"
| "str_includes (c # cs) p = (prefix p (c # cs) \<or> str_includes cs p)"

text \<open>
  The origin of a request URL, as the claims speak of it. \<open>Request.url\<close> is a serialised
  URL; for an http(s) URL without credentials its origin (scheme, host and port) is the
  text before the first slash of the path, that is before the third slash of the URL.
  \<open>self.location.origin\<close> is such a text as well.
\<close>

fun origin_upto :: "nat \<Rightarrow> string \<Rightarrow> string" where
  "origin_upto n [] = []"
| "origin_upto n (c # cs) =
     (if c = CHR ''/'' then (if n = 0 then [] else c # origin_upto (n - 1) cs)
      else c # origin_upto n cs)"

definition url_origin :: "string \<Rightarrow> string" where
  "url_origin u = origin_upto 2 u"

text \<open>
  The scope test of the Service Worker standard (Match Service Worker Registration): a
  URL falls under a registration when the scope URL's text is a prefix of the URL's text.
\<close>

definition under_scope :: "string \<Rightarrow> string \<Rightarrow> bool" where
  "under_scope scope u = prefix scope u"

subsection \<open>Requests, responses and the cache storage of the host\<close>

record request =
  url :: string
  req_method :: string

record response =
  status :: nat
  rtype :: string
  rbody :: string

text \<open>
  What \<open>fetch\<close> settles with: a rejection, or a fulfilment with a value. A host fulfils
  with a Response object only; the handler's own test \<open>!response\<close> is kept, so the
  fulfilment value is optional (\<open>None\<close> is undefined or null).
\<close>

datatype fetch_result = Rejected js_error | Fulfilled "response option"

text \<open>
  A cache is the list of its entries, each the URL of the request it was stored under
  and the response; the cache storage is the list of the named caches in the order of
  their creation. Headers are not part of the model, so neither is matching by Vary.
\<close>

type_synonym cache = "(string \<times> response) list"
type_synonym cache_storage = "(string \<times> cache) list"

record host =
  network :: "request \<Rightarrow> fetch_result"
  resolve :: "string \<Rightarrow> string"
  delete_ok :: "string \<Rightarrow> bool"
  to_string :: "jsval \<Rightarrow> string"

text \<open>\<open>caches.keys()\<close>, \<open>caches.open(name)\<close> (which creates a missing cache) and a
  successful \<open>caches.delete(name)\<close>.\<close>

definition caches_keys :: "cache_storage \<Rightarrow> string list" where
  "caches_keys cs = map fst cs"

definition caches_open :: "string \<Rightarrow> cache_storage \<Rightarrow> cache_storage" where
  "caches_open name cs = (if name \<in> set (map fst cs) then cs else cs @ [(name, [])])"

definition caches_delete :: "string \<Rightarrow> cache_storage \<Rightarrow> cache_storage" where
  "caches_delete name cs = AList.delete name cs"

text \<open>The entries of the cache of a name (none when there is no such cache).\<close>

definition cache_of :: "cache_storage \<Rightarrow> string \<Rightarrow> cache" where
  "cache_of cs name = (case map_of cs name of Some c \<Rightarrow> c | None \<Rightarrow> [])"

text \<open>
  The host compares the URL of a request with the URL of an entry without their
  fragments (Request Matches Cached Item: the URLs are compared with the exclude
  fragment flag set). The fragment of a serialised URL is the text from its first
  \<open>#\<close> on.
\<close>

definition strip_fragment :: "string \<Rightarrow> string" where
  "strip_fragment u = takeWhile (\<lambda>c. c \<noteq> CHR ''#'') u"

definition without_fragments :: "cache \<Rightarrow> cache" where
  "without_fragments c = map (\<lambda>(k, r). (strip_fragment k, r)) c"

text \<open>
  \<open>cache.match(request)\<close>: a request whose method is not GET matches nothing (Cache
  matchAll, with ignoreMethod false); otherwise the first entry whose URL is the
  request's, fragments apart.
\<close>

definition cache_match :: "cache \<Rightarrow> request \<Rightarrow> response option" where
  "cache_match c req =
     (if req_method req = ''GET''
      then map_of (without_fragments c) (strip_fragment (url req)) else None)"

text \<open>
  \<open>caches.match(request)\<close> on the cache storage: the caches are tried in the order of
  their creation, and the first match is the result (CacheStorage match).
\<close>

fun caches_match :: "cache_storage \<Rightarrow> request \<Rightarrow> response option" where
  "caches_match [] req = None"
| "caches_match ((name, c) # cs) req =
     (case cache_match c req of Some r \<Rightarrow> Some r | None \<Rightarrow> caches_match cs req)"

text \<open>
  One put of Batch Cache Operations: the entries that the request matches are removed,
  and the new entry is added at the end.
\<close>

definition put_entry :: "string \<Rightarrow> response \<Rightarrow> cache \<Rightarrow> cache" where
  "put_entry u r c =
     filter (\<lambda>(k, old). strip_fragment k \<noteq> strip_fragment u) c @ [(u, r)]"

text \<open>
  \<open>cache.put(request, response)\<close>: rejected with a TypeError for a request whose method
  is not GET (Cache put); otherwise the response is put under the request.
\<close>

definition cache_put :: "cache \<Rightarrow> request \<Rightarrow> response \<Rightarrow> js_error + cache" where
  "cache_put c req r =
     (if req_method req \<noteq> ''GET'' then Inl TypeError else Inr (put_entry (url req) r c))"

text \<open>
  \<open>cache.addAll(urls)\<close>: every URL is resolved and fetched with a GET request. The
  promise rejects with a TypeError, and nothing is stored, unless every fetch fulfils
  with a response of an ok status (200 to 299) other than 206; a batch in which two
  requests have the same URL, fragments apart, is refused with an InvalidStateError.
  Only then are all the responses stored, in one batch (Cache addAll, Batch Cache
  Operations).
\<close>

definition asset_request :: "host \<Rightarrow> string \<Rightarrow> request" where
  "asset_request h u = \<lparr>url = resolve h u, req_method = ''GET''\<rparr>"

definition addable :: "fetch_result \<Rightarrow> bool" where
  "addable fr =
     (case fr of
        Rejected e \<Rightarrow> False
      | Fulfilled None \<Rightarrow> False
      | Fulfilled (Some r) \<Rightarrow> 200 \<le> status r \<and> status r \<le> 299 \<and> status r \<noteq> 206
          \<and> rtype r \<noteq> ''error'')"

fun store_all :: "(string \<times> fetch_result) list \<Rightarrow> cache \<Rightarrow> cache" where
  "store_all [] c = c"
| "store_all ((u, Fulfilled (Some r)) # rest) c = store_all rest (put_entry u r c)"
| "store_all ((u, fr) # rest) c = store_all rest c"

definition cache_addAll :: "host \<Rightarrow> string list \<Rightarrow> cache \<Rightarrow> js_error + cache" where
  "cache_addAll h urls c =
     (let reqs = map (asset_request h) urls;
          fetched = map (\<lambda>q. (url q, network h q)) reqs
      in if list_ex (\<lambda>(u, fr). \<not> addable fr) fetched then Inl TypeError
         else if \<not> distinct (map (\<lambda>(u, fr). strip_fragment u) fetched)
         then Inl InvalidStateError
         else Inr (store_all fetched c))"

subsection \<open>The worker's constants\<close>

definition CACHE_NAME :: string where
  "CACHE_NAME = ''daily-tracker-v2.1''"

definition FILES_TO_CACHE :: "string list" where
  "FILES_TO_CACHE =
     [ ''/'',
       ''index.html'',
       ''core/core-styles.css'',
       ''core/core-scripts.js'',
       ''core/ui.js'',
       ''trackers/trackers-scripts.js'',
       ''trackers/trackers-styles.css'',
       ''workouts/workouts-scripts.js'',
       ''workouts/workouts-styles.css'',
       ''habits/habits-scripts.js'',
       ''habits/habits-styles.css'',
       ''reminders/reminders-scripts.js'',
       ''reminders/reminders-styles.css'',
       ''manifest.json'',
       ''icons/icon-192.png'',
       ''icons/icon-512.png'',
       ''https://fonts.googleapis.com/css2?family=Inter:wght@400;500;600;700&display=swap'',
       ''https://fonts.googleapis.com/icon?family=Material+Icons+Round'' ]"

subsection \<open>Host calls and runs\<close>

record window_client =
  client_url :: string
  has_focus :: bool

record notification_options =
  body :: jsval
  icon :: string
  badge :: string
  tag :: jsval
  requireInteraction :: bool
  actions :: "(string \<times> string) list"
  data :: "jsval option"

datatype log_arg = ArgNone | ArgEvent | ArgStr string | ArgVal jsval

datatype effect =
    ConsoleLog string log_arg
  | ConsoleError string js_error
  | SkipWaiting
  | ClientsClaim
  | CachesKeys
  | CachesOpen string
  | CachesDelete string
  | CachesMatch request
  | CacheAddAll string "string list"
  | CachePut string request response
  | Fetch request
  | ShowNotification jsval notification_options
  | NotificationClose
  | ClientsMatchAll string bool
  | PostMessage window_client jsval
  | Focus window_client
  | OpenWindow string

text \<open>
  How a handler ends: it throws, it returns without extending the event, or it returns
  having passed to \<open>event.waitUntil\<close> a promise that fulfils or rejects.
\<close>

datatype completion = Threw js_error | NoWait | WaitFulfilled | WaitRejected js_error

record 'a run =
  trace :: "effect list"
  caches :: cache_storage
  outcome :: 'a

subsection \<open>install (lines 31 to 48) and activate (lines 51 to 68)\<close>

text \<open>
  \<open>caches.open(CACHE_NAME).then((cache) => cache.addAll(FILES_TO_CACHE))\<close>: the storage
  with the current cache opened, and what \<open>addAll\<close> settles with.
\<close>

definition populate :: "host \<Rightarrow> cache_storage \<Rightarrow> cache_storage \<times> js_error option" where
  "populate h cs =
     (let opened = caches_open CACHE_NAME cs in
      case cache_addAll h FILES_TO_CACHE (cache_of opened CACHE_NAME) of
        Inl e \<Rightarrow> (opened, Some e)
      | Inr c \<Rightarrow> (AList.update CACHE_NAME c opened, None))"

definition on_install :: "host \<Rightarrow> cache_storage \<Rightarrow> completion run" where
  "on_install h cs =
     (let started = [ConsoleLog ''[Service Worker] Install'' ArgNone, SkipWaiting,
                     CachesOpen CACHE_NAME,
                     ConsoleLog ''[Service Worker] Caching app shell and content'' ArgNone,
                     CacheAddAll CACHE_NAME FILES_TO_CACHE]
      in case populate h cs of
           (cs', None) \<Rightarrow> \<lparr>trace = started, caches = cs', outcome = WaitFulfilled\<rparr>
         | (cs', Some e) \<Rightarrow>
             \<lparr>trace = started @ [ConsoleError ''[Service Worker] Precaching failed:'' e],
              caches = cs', outcome = WaitFulfilled\<rparr>)"

text \<open>
  \<open>caches.delete(key)\<close> as the host performs it: the cache is removed, or the host
  fails to remove it and the promise rejects.
\<close>

definition host_delete :: "host \<Rightarrow> string \<Rightarrow> cache_storage \<Rightarrow> cache_storage" where
  "host_delete h key cs = (if delete_ok h key then caches_delete key cs else cs)"

text \<open>The callback of \<open>keyList.map\<close>: the host calls it makes for one key.\<close>

definition remove_old :: "string \<Rightarrow> effect list" where
  "remove_old key =
     (if key \<noteq> CACHE_NAME
      then [ConsoleLog ''[Service Worker] Removing old cache'' (ArgStr key), CachesDelete key]
      else [])"

text \<open>The deletions the handler starts: one for every key that is not the current name.\<close>

definition attempted :: "string list \<Rightarrow> string list" where
  "attempted keyList = filter (\<lambda>key. key \<noteq> CACHE_NAME) keyList"

text \<open>
  \<open>Promise.all\<close> over the deletions: every deletion has been started by \<open>map\<close> before
  any of them settles; the promise rejects when one of them does. The reason of a failed
  deletion is the host's own; it is written \<open>HostError key\<close>.
\<close>

definition on_activate :: "host \<Rightarrow> cache_storage \<Rightarrow> completion run" where
  "on_activate h cs =
     (let keyList = caches_keys cs;
          failed = filter (\<lambda>key. \<not> delete_ok h key) (attempted keyList)
      in \<lparr>trace = [ConsoleLog ''[Service Worker] Activate'' ArgNone, CachesKeys, ClientsClaim]
                    @ concat (map remove_old keyList),
          caches = fold (host_delete h) (attempted keyList) cs,
          outcome = (case failed of [] \<Rightarrow> WaitFulfilled
                     | key # _ \<Rightarrow> WaitRejected (HostError key))\<rparr>)"

subsection \<open>fetch (lines 71 to 108)\<close>

text \<open>
  What the page that made the request gets: the request is left to the browser (the
  handler did not call \<open>respondWith\<close>), or it is answered with the value the promise
  given to \<open>respondWith\<close> fulfils with (\<open>None\<close> is undefined, a network error for the
  page).
\<close>

datatype fetch_outcome = NotIntercepted | Responded "response option"

text \<open>
  Lines 91 to 97, \<open>caches.open(CACHE_NAME).then((cache) => { cache.put(event.request,
  responseToCache); })\<close>: the current cache is opened and the clone is put; a rejected
  put leaves the opened cache as it was. The clone of a response is the response.
\<close>

definition store_clone :: "cache_storage \<Rightarrow> request \<Rightarrow> response \<Rightarrow> cache_storage" where
  "store_clone cs req responseToCache =
     (let opened = caches_open CACHE_NAME cs in
      case cache_put (cache_of opened CACHE_NAME) req responseToCache of
        Inl e \<Rightarrow> opened
      | Inr c \<Rightarrow> AList.update CACHE_NAME c opened)"

definition on_fetch :: "host \<Rightarrow> string \<Rightarrow> cache_storage \<Rightarrow> request \<Rightarrow> fetch_outcome run" where
  "on_fetch h origin cs req =
     (if startsWith (url req) origin then
        (case caches_match cs req of
           Some cached \<Rightarrow>
             \<lparr>trace = [CachesMatch req], caches = cs, outcome = Responded (Some cached)\<rparr>
         | None \<Rightarrow>
            (case network h req of
               Rejected e \<Rightarrow>
                 \<lparr>trace = [CachesMatch req, Fetch req,
                            ConsoleError ''[Service Worker] Fetch failed:'' e],
                  caches = cs, outcome = Responded None\<rparr>
             | Fulfilled None \<Rightarrow>
                 \<lparr>trace = [CachesMatch req, Fetch req], caches = cs, outcome = Responded None\<rparr>
             | Fulfilled (Some r) \<Rightarrow>
                 if status r \<noteq> 200 \<or> rtype r \<noteq> ''basic'' then
                   \<lparr>trace = [CachesMatch req, Fetch req], caches = cs,
                    outcome = Responded (Some r)\<rparr>
                 else
                   \<lparr>trace = [CachesMatch req, Fetch req, CachesOpen CACHE_NAME,
                             CachePut CACHE_NAME req r],
                    caches = store_clone cs req r, outcome = Responded (Some r)\<rparr>))
      else \<lparr>trace = [], caches = cs, outcome = NotIntercepted\<rparr>)"

subsection \<open>push (lines 111 to 158)\<close>

text \<open>\<open>event.data\<close> of a push event, when there is a payload: what its \<open>json()\<close> does,
  which is to throw or to return the parsed value.\<close>

datatype push_message_data = PushMessageData (json: "js_error + jsval")

definition default_title :: jsval where
  "default_title = JStr ''Daily Tracker''"

definition default_options :: notification_options where
  "default_options =
     \<lparr>body = JStr ''Time to check your health reminders!'',
      icon = ''icons/icon-192.png'',
      badge = ''icons/icon-192.png'',
      tag = JStr ''reminder-notification'',
      requireInteraction = False,
      actions = [(''open'', ''Open App''), (''dismiss'', ''Dismiss'')],
      data = None\<rparr>"

text \<open>Lines 143 to 147: the object attached to a reminder's notification.\<close>

definition reminder_data :: "jsval \<Rightarrow> jsval" where
  "reminder_data d =
     JObj [(''type'', JStr ''reminder''),
           (''reminderId'', js_or (own_prop d ''reminderId'') JNull),
           (''action'', js_or (own_prop d ''action'') (JStr ''open''))]"

text \<open>
  The \<open>try\<close> block, lines 136 to 148, on the title and the options so far: the error
  caught, if one is thrown, and the title and options when the block is left. \<open>json()\<close>
  throws before anything is assigned; so does the first property read, \<open>data.title\<close>,
  when the payload parses to null. No later statement of the block can throw.
\<close>

definition push_try ::
  "push_message_data \<Rightarrow> jsval \<Rightarrow> notification_options
     \<Rightarrow> js_error option \<times> jsval \<times> notification_options" where
  "push_try pd title options =
     (case json pd of
        Inl e \<Rightarrow> (Some e, title, options)
      | Inr d \<Rightarrow>
         (case get_prop d ''title'' of
            Inl e \<Rightarrow> (Some e, title, options)
          | Inr t \<Rightarrow>
             (let options1 = options\<lparr>body := js_or (own_prop d ''body'') (body options),
                                      tag := js_or (own_prop d ''tag'') (tag options)\<rparr>
              in (None, js_or t title,
                  if own_prop d ''type'' = JStr ''reminder''
                  then options1\<lparr>data := Some (reminder_data d)\<rparr> else options1))))"

definition on_push :: "push_message_data option \<Rightarrow> effect list \<times> completion" where
  "on_push event_data =
     (let (caught, title, options) =
            (case event_data of
               None \<Rightarrow> (None, default_title, default_options)
             | Some pd \<Rightarrow> push_try pd default_title default_options)
      in ([ConsoleLog ''[Service Worker] Push received:'' ArgEvent]
          @ (case caught of
               None \<Rightarrow> []
             | Some e \<Rightarrow> [ConsoleError ''[Service Worker] Error parsing push data:'' e])
          @ [ShowNotification title options],
          WaitFulfilled))"

subsection \<open>notificationclick (lines 161 to 208) and notificationclose (lines 254 to 264)\<close>

record click_event =
  action :: string
  notification_data :: jsval

text \<open>The test of line 183 on one client of the list.\<close>

definition matches_scope :: "string \<Rightarrow> window_client \<Rightarrow> bool" where
  "matches_scope scope client = (str_includes (client_url client) scope \<and> has_focus client)"

text \<open>Lines 197 to 203: the URL of the window to open.\<close>

definition open_url :: "host \<Rightarrow> jsval \<Rightarrow> string" where
  "open_url h notificationData =
     ''/'' @
     (if own_prop notificationData ''type'' = JStr ''reminder''
      then ''?open=reminders'' @
           (if truthy (own_prop notificationData ''reminderId'')
            then ''&reminder='' @ to_string h (own_prop notificationData ''reminderId'')
            else [])
      else [])"

definition click_message :: "jsval \<Rightarrow> jsval" where
  "click_message notificationData =
     JObj [(''type'', JStr ''notification-click''),
           (''action'', JStr ''open-reminders''),
           (''reminderId'', own_prop notificationData ''reminderId'')]"

text \<open>
  \<open>ClientsMatchAll t u\<close> is the call \<open>clients.matchAll({type: t, includeUncontrolled:
  u})\<close>. \<open>clientList\<close> is what the call of line 178 fulfils with: the open windows of
  the worker's origin, controlled or not.
  \<open>notificationData\<close> is \<open>event.notification.data || {}\<close>, never null or undefined, so
  its properties are read without a throw. The loop returns at the first client that
  passes the test.
\<close>

definition on_notificationclick ::
  "host \<Rightarrow> string \<Rightarrow> window_client list \<Rightarrow> click_event \<Rightarrow> effect list \<times> completion" where
  "on_notificationclick h scope clientList ev =
     (let notificationData = js_or (notification_data ev) (JObj []) in
      if action ev = ''dismiss'' then
        ([ConsoleLog ''[Service Worker] Notification click:'' ArgEvent, NotificationClose],
         NoWait)
      else
        ([ConsoleLog ''[Service Worker] Notification click:'' ArgEvent, NotificationClose,
          ClientsMatchAll ''window'' True]
         @ (case find (matches_scope scope) clientList of
              Some client \<Rightarrow>
                (if own_prop notificationData ''type'' = JStr ''reminder''
                 then [PostMessage client (click_message notificationData)] else [])
                @ [Focus client]
            | None \<Rightarrow> [OpenWindow (open_url h notificationData)]),
         WaitFulfilled))"

definition on_notificationclose :: "jsval \<Rightarrow> jsval \<Rightarrow> effect list \<times> completion" where
  "on_notificationclose notification_tag ndata =
     (let notificationData = js_or ndata (JObj []) in
      ([ConsoleLog ''[Service Worker] Notification closed:'' (ArgVal notification_tag)]
       @ (if own_prop notificationData ''type'' = JStr ''reminder''
          then [ConsoleLog ''[Service Worker] Reminder notification dismissed'' ArgNone]
          else []),
       NoWait))"

subsection \<open>sync (lines 211 to 220) and message (lines 223 to 251)\<close>

definition on_sync :: "string \<Rightarrow> effect list \<times> completion" where
  "on_sync sync_tag =
     ([ConsoleLog ''[Service Worker] Background sync:'' ArgEvent],
      if sync_tag = ''reminder-sync'' then WaitFulfilled else NoWait)"

text \<open>
  \<open>const { type, data } = event.data\<close> throws for null and undefined, before either
  property is read; the \<open>switch\<close> compares with \<open>===\<close>. The promise given to
  \<open>waitUntil\<close> for 'update-cache' has no \<open>catch\<close>.
\<close>

definition on_message :: "host \<Rightarrow> cache_storage \<Rightarrow> jsval \<Rightarrow> completion run" where
  "on_message h cs event_data =
     (let received = ConsoleLog ''[Service Worker] Message received:'' (ArgVal event_data) in
      case get_prop event_data ''type'' of
        Inl e \<Rightarrow> \<lparr>trace = [received], caches = cs, outcome = Threw e\<rparr>
      | Inr mtype \<Rightarrow>
         (let mdata = own_prop event_data ''data'' in
          if mtype = JStr ''schedule-reminder'' then
            \<lparr>trace = [received,
                       ConsoleLog ''[Service Worker] Reminder scheduling requested:''
                         (ArgVal mdata)],
             caches = cs, outcome = NoWait\<rparr>
          else if mtype = JStr ''cancel-reminder'' then
            \<lparr>trace = [received,
                       ConsoleLog ''[Service Worker] Reminder cancellation requested:''
                         (ArgVal mdata)],
             caches = cs, outcome = NoWait\<rparr>
          else if mtype = JStr ''update-cache'' then
            (case populate h cs of
               (cs', None) \<Rightarrow>
                 \<lparr>trace = [received, CachesOpen CACHE_NAME,
                            CacheAddAll CACHE_NAME FILES_TO_CACHE],
                  caches = cs', outcome = WaitFulfilled\<rparr>
             | (cs', Some e) \<Rightarrow>
                 \<lparr>trace = [received, CachesOpen CACHE_NAME,
                            CacheAddAll CACHE_NAME FILES_TO_CACHE],
                  caches = cs', outcome = WaitRejected e\<rparr>)
          else
            \<lparr>trace = [received,
                       ConsoleLog ''[Service Worker] Unknown message type:'' (ArgVal mtype)],
             caches = cs, outcome = NoWait\<rparr>))"

subsection \<open>Concrete hosts and events\<close>

text \<open>
  A worker served from \<open>https://app.example/\<close>, with scope \<open>https://app.example/tracker/\<close>
  where a scope matters. Relative URLs resolve against the root; every same-origin fetch
  is answered with a 200 basic response, every other one with a 200 cors response.
\<close>

definition app_origin :: string where
  "app_origin = ''https://app.example''"

definition app_resolve :: "string \<Rightarrow> string" where
  "app_resolve u =
     (if startsWith u ''https://'' then u
      else if startsWith u ''/'' then app_origin @ u
      else app_origin @ ''/'' @ u)"

definition page :: "string \<Rightarrow> response" where
  "page u = \<lparr>status = 200,
              rtype = (if url_origin u = app_origin then ''basic'' else ''cors''),
              rbody = u\<rparr>"

text \<open>
  How the host prints a value in a template literal (ToString). A number prints as
  JavaScript prints it when it is an integer of at most 15 digits, or a decimal fraction
  of at most 15 significant digits that is not below 0.000001 in size; an array prints
  its elements, null and undefined as nothing, separated by commas.
\<close>

definition digit_char :: "nat \<Rightarrow> char" where
  "digit_char d = ''0123456789'' ! d"

fun nat_digits :: "nat \<Rightarrow> string" where
  "nat_digits n =
     (if n < 10 then [digit_char n] else nat_digits (n div 10) @ [digit_char (n mod 10)])"

declare nat_digits.simps [simp del]

fun frac_digits :: "nat \<Rightarrow> nat \<Rightarrow> nat \<Rightarrow> string" where
  "frac_digits 0 r d = []"
| "frac_digits (Suc k) r d =
     (if r = 0 then [] else digit_char (10 * r div d) # frac_digits k (10 * r mod d) d)"

definition number_to_string :: "rat \<Rightarrow> string" where
  "number_to_string q =
     (let (a, b) = quotient_of q; n = nat \<bar>a\<bar>; d = nat b
      in (if a < 0 then ''-'' else [])
         @ nat_digits (n div d)
         @ (if n mod d = 0 then [] else ''.'' @ frac_digits 20 (n mod d) d))"

fun join_commas :: "string list \<Rightarrow> string" where
  "join_commas [] = []"
| "join_commas [s] = s"
| "join_commas (s # rest) = s @ '','' @ join_commas rest"

fun app_to_string :: "jsval \<Rightarrow> string" where
  "app_to_string JUndefined = ''undefined''"
| "app_to_string JNull = ''null''"
| "app_to_string (JBool b) = (if b then ''true'' else ''false'')"
| "app_to_string JNaN = ''NaN''"
| "app_to_string (JNum q) = number_to_string q"
| "app_to_string (JStr s) = s"
| "app_to_string (JArr xs) =
     join_commas (map (\<lambda>v. if v = JUndefined \<or> v = JNull then [] else app_to_string v) xs)"
| "app_to_string (JObj fs) = ''[object Object]''"

definition online :: host where
  "online = \<lparr>network = (\<lambda>q. Fulfilled (Some (page (url q)))),
             resolve = app_resolve,
             delete_ok = (\<lambda>key. True),
             to_string = app_to_string\<rparr>"

text \<open>The same host when one asset, \<open>index.html\<close>, cannot be reached.\<close>

definition one_missing :: host where
  "one_missing =
     online\<lparr>network := (\<lambda>q. if url q = ''https://app.example/index.html''
                               then Rejected TypeError
                               else Fulfilled (Some (page (url q))))\<rparr>"

text \<open>The same host when one deletion fails.\<close>

definition sticky :: host where
  "sticky = online\<lparr>delete_ok := (\<lambda>key. key \<noteq> ''daily-tracker-v1.0'')\<rparr>"

definition get_request :: "string \<Rightarrow> request" where
  "get_request u = \<lparr>url = u, req_method = ''GET''\<rparr>"

definition post_request :: "string \<Rightarrow> request" where
  "post_request u = \<lparr>url = u, req_method = ''POST''\<rparr>"

text \<open>A cache storage whose only cache is the current one, holding the start page.\<close>

definition warm :: cache_storage where
  "warm = [(CACHE_NAME, [(''https://app.example/index.html'',
                          page ''https://app.example/index.html'')])]"

text \<open>The same cache after an emptied cache of an earlier version.\<close>

definition layered :: cache_storage where
  "layered = [(''daily-tracker-v1.0'', []),
              (CACHE_NAME, [(''https://app.example/index.html'',
                             page ''https://app.example/index.html'')])]"

text \<open>A cache storage that holds a cache of an earlier version beside the current one.\<close>

definition stale_page :: response where
  "stale_page = \<lparr>status = 200, rtype = ''basic'', rbody = ''old''\<rparr>"

definition two_versions :: cache_storage where
  "two_versions =
     [(''daily-tracker-v2.0'', [(''https://app.example/core/ui.js'', stale_page)]),
      (CACHE_NAME, [])]"

definition three_versions :: cache_storage where
  "three_versions =
     [(''daily-tracker-v1.0'', []),
      (''daily-tracker-v2.0'', [(''https://app.example/core/ui.js'', stale_page)]),
      (CACHE_NAME, [])]"

text \<open>
  A worker on a development machine, \<open>http://localhost\<close>, and a request of its page to
  another server on the same machine, \<open>http://localhost:8080\<close>.
\<close>

definition local_origin :: string where
  "local_origin = ''http://localhost''"

definition api_request :: request where
  "api_request = get_request ''http://localhost:8080/api/entries''"

definition api_response :: response where
  "api_response = \<lparr>status = 200, rtype = ''cors'', rbody = ''[]''\<rparr>"

definition local_host :: host where
  "local_host = online\<lparr>network := (\<lambda>q. Fulfilled (Some api_response))\<rparr>"

text \<open>
  Windows of the origin: one of the application, and one of another site of the same
  origin whose URL mentions the worker's scope in its query.
\<close>

definition app_scope :: string where
  "app_scope = ''https://app.example/tracker/''"

definition tracker_window :: window_client where
  "tracker_window = \<lparr>client_url = ''https://app.example/tracker/index.html'', has_focus = True\<rparr>"

definition blog_window :: window_client where
  "blog_window =
     \<lparr>client_url = ''https://app.example/blog/?from=https://app.example/tracker/'',
      has_focus = True\<rparr>"

definition reminder_click :: click_event where
  "reminder_click =
     \<lparr>action = ''open'',
      notification_data = JObj [(''type'', JStr ''reminder''), (''reminderId'', JStr ''7''),
                                (''action'', JStr ''open'')]\<rparr>"

definition settings_window :: window_client where
  "settings_window = \<lparr>client_url = ''https://app.example/settings'', has_focus = True\<rparr>"

text \<open>The message a page sends to refresh the cache.\<close>

definition update_cache_message :: jsval where
  "update_cache_message = JObj [(''type'', JStr ''update-cache'')]"

section \<open>Properties\<close>

subsection \<open>URLs and the cache storage\<close>

lemma origin_upto_prefix: "prefix (origin_upto n u) u"
  by (induction u arbitrary: n) auto

text \<open>A request of the worker's own origin passes the test of line 73.\<close>

lemma same_origin_startsWith:
  "url_origin (url req) = origin \<Longrightarrow> startsWith (url req) origin"
  unfolding url_origin_def startsWith_def using origin_upto_prefix by metis

lemma caches_match_None_iff:
  "caches_match cs req = None \<longleftrightarrow> (\<forall>(n, c) \<in> set cs. cache_match c req = None)"
  by (induction cs) (auto split: option.splits)

lemma caches_match_first:
  "(\<forall>(n, d) \<in> set earlier. cache_match d req = None) \<Longrightarrow> cache_match c req = Some cached
   \<Longrightarrow> caches_match (earlier @ (name, c) # later) req = Some cached"
  by (induction earlier) (auto split: option.splits)

text \<open>A hit of \<open>caches.match\<close> is the match of the first cache that has one.\<close>

lemma caches_match_split:
  "caches_match cs req = Some cached \<Longrightarrow>
     \<exists>earlier name c later. cs = earlier @ (name, c) # later
       \<and> (\<forall>(n, d) \<in> set earlier. cache_match d req = None)
       \<and> cache_match c req = Some cached"
proof (induction cs)
  case Nil
  then show ?case by simp
next
  case (Cons p cs)
  obtain name c where p: "p = (name, c)" by (cases p)
  show ?case
  proof (cases "cache_match c req")
    case None
    with Cons.prems p have "caches_match cs req = Some cached" by simp
    from Cons.IH[OF this] obtain earlier name' c' later
      where "cs = earlier @ (name', c') # later"
        and "\<forall>(n, d) \<in> set earlier. cache_match d req = None"
        and "cache_match c' req = Some cached" by blast
    with None p have "p # cs = (p # earlier) @ (name', c') # later
        \<and> (\<forall>(n, d) \<in> set (p # earlier). cache_match d req = None)
        \<and> cache_match c' req = Some cached" by simp
    then show ?thesis by blast
  next
    case (Some r)
    with Cons.prems p have "p # cs = [] @ (name, c) # cs
        \<and> (\<forall>(n, d) \<in> set []. cache_match d req = None)
        \<and> cache_match c req = Some cached" by simp
    then show ?thesis
      by - (rule exI[of _ "[]"], rule exI[of _ name], rule exI[of _ c], rule exI[of _ cs])
  qed
qed

lemma caches_match_Some_store:
  "caches_match cs req = Some cached \<Longrightarrow> \<exists>(n, c) \<in> set cs. cache_match c req = Some cached"
  by (induction cs) (auto split: option.splits)

lemma caches_match_entry:
  "(name, c) \<in> set cs \<Longrightarrow> cache_match c req = Some entry
   \<Longrightarrow> \<exists>cached. caches_match cs req = Some cached"
  using caches_match_None_iff[of cs req] by (cases "caches_match cs req") auto

lemma cache_of_update: "cache_of (AList.update name c cs) name = c"
  by (simp add: cache_of_def update_conv')

text \<open>After a put the cache answers the request with the response put, and every other
  URL as before.\<close>

lemma filtered_no_match:
  "map_of (without_fragments (filter (\<lambda>(k, old). strip_fragment k \<noteq> a) c)) a = None"
  by (induction c) (auto simp: without_fragments_def)

lemma filtered_other:
  "b \<noteq> a \<Longrightarrow> map_of (without_fragments (filter (\<lambda>(k, old). strip_fragment k \<noteq> a) c)) b
     = map_of (without_fragments c) b"
  by (induction c) (auto simp: without_fragments_def)

lemma put_entry_same:
  "strip_fragment v = strip_fragment u \<Longrightarrow>
     map_of (without_fragments (put_entry u r c)) (strip_fragment v) = Some r"
  using filtered_no_match[of "strip_fragment u" c]
  by (simp add: put_entry_def without_fragments_def map_add_def)

lemma put_entry_other:
  "b \<noteq> strip_fragment u \<Longrightarrow>
     map_of (without_fragments (put_entry u r c)) b = map_of (without_fragments c) b"
  using filtered_other[of b "strip_fragment u" c]
  by (simp add: put_entry_def without_fragments_def map_add_def split: option.splits)

lemma store_clone_get:
  "req_method req = ''GET'' \<Longrightarrow>
     cache_match (cache_of (store_clone cs req r) CACHE_NAME) req = Some r"
  by (simp add: store_clone_def Let_def cache_put_def cache_of_update cache_match_def
      put_entry_same)

lemma store_clone_other:
  "req_method req \<noteq> ''GET'' \<Longrightarrow> store_clone cs req r = caches_open CACHE_NAME cs"
  by (simp add: store_clone_def Let_def cache_put_def)

subsection \<open>The fetch handler\<close>

lemma on_fetch_hit:
  "startsWith (url req) origin \<Longrightarrow> caches_match cs req = Some cached \<Longrightarrow>
     on_fetch h origin cs req =
       \<lparr>trace = [CachesMatch req], caches = cs, outcome = Responded (Some cached)\<rparr>"
  by (simp add: on_fetch_def)

text \<open>A request whose URL does not start with the origin's text is left alone: no host
  call is made, the storage stays as it is, and \<open>respondWith\<close> is not called.\<close>

lemma fetch_not_prefixed:
  "\<not> startsWith (url req) origin \<Longrightarrow>
     on_fetch h origin cs req = \<lparr>trace = [], caches = cs, outcome = NotIntercepted\<rparr>"
  by (simp add: on_fetch_def)

text \<open>
  C1. For every same-origin request that has a cached entry (some cache of the storage
  holds an entry that the host's lookup matches the request with, fragments apart), the
  handler answers with a cached response of the request, as it is stored: the entry of
  the first cache, in the order of creation, that has one. Its only host call is the
  lookup, so no network fetch is issued, and the storage is unchanged. When the caches
  that have an entry for the request all hold the same response, as when only one cache
  has one, that response is the answer; and the entry of a cache is the answer whenever
  no cache created before it has an entry for the request.
\<close>

theorem fetch_hit_returns_cached:
  assumes "url_origin (url req) = origin"
    and "(name, c) \<in> set cs" and "cache_match c req = Some entry"
  shows "(\<exists>earlier first_name first later cached.
             cs = earlier @ (first_name, first) # later
             \<and> (\<forall>(n, d) \<in> set earlier. cache_match d req = None)
             \<and> cache_match first req = Some cached
             \<and> on_fetch h origin cs req =
                 \<lparr>trace = [CachesMatch req], caches = cs, outcome = Responded (Some cached)\<rparr>)
     \<and> (\<forall>q. Fetch q \<notin> set (trace (on_fetch h origin cs req)))
     \<and> ((\<forall>(n, d) \<in> set cs. cache_match d req = None \<or> cache_match d req = Some entry) \<longrightarrow>
           on_fetch h origin cs req =
             \<lparr>trace = [CachesMatch req], caches = cs, outcome = Responded (Some entry)\<rparr>)
     \<and> (\<forall>earlier later.
           cs = earlier @ (name, c) # later
           \<and> (\<forall>(n, d) \<in> set earlier. cache_match d req = None) \<longrightarrow>
           on_fetch h origin cs req =
             \<lparr>trace = [CachesMatch req], caches = cs, outcome = Responded (Some entry)\<rparr>)"
proof -
  obtain cached where hit: "caches_match cs req = Some cached"
    using caches_match_entry[OF assms(2,3)] by blast
  have pre: "startsWith (url req) origin"
    using assms(1) by (rule same_origin_startsWith)
  have before: "on_fetch h origin cs req =
        \<lparr>trace = [CachesMatch req], caches = cs, outcome = Responded (Some entry)\<rparr>"
    if "cs = earlier @ (name, c) # later"
      and "\<forall>(n, d) \<in> set earlier. cache_match d req = None"
    for earlier later
    using on_fetch_hit[OF pre] caches_match_first[OF that(2) assms(3)] that(1) by simp
  have run: "on_fetch h origin cs req =
      \<lparr>trace = [CachesMatch req], caches = cs, outcome = Responded (Some cached)\<rparr>"
    using on_fetch_hit[OF same_origin_startsWith[OF assms(1)] hit] .
  from caches_match_split[OF hit] obtain earlier first_name first later
    where split: "cs = earlier @ (first_name, first) # later"
      "\<forall>(n, d) \<in> set earlier. cache_match d req = None"
      "cache_match first req = Some cached" by blast
  have same: "cached = entry"
    if "\<forall>(n, d) \<in> set cs. cache_match d req = None \<or> cache_match d req = Some entry"
    using that split(1,3) by auto
  from split run have "\<exists>earlier first_name first later cached.
             cs = earlier @ (first_name, first) # later
             \<and> (\<forall>(n, d) \<in> set earlier. cache_match d req = None)
             \<and> cache_match first req = Some cached
             \<and> on_fetch h origin cs req =
                 \<lparr>trace = [CachesMatch req], caches = cs, outcome = Responded (Some cached)\<rparr>"
    by blast
  moreover have "\<forall>q. Fetch q \<notin> set (trace (on_fetch h origin cs req))"
    by (simp add: run)
  moreover have "(\<forall>(n, d) \<in> set cs. cache_match d req = None \<or> cache_match d req = Some entry) \<longrightarrow>
           on_fetch h origin cs req =
             \<lparr>trace = [CachesMatch req], caches = cs, outcome = Responded (Some entry)\<rparr>"
    using same run by simp
  moreover have "\<forall>earlier later.
           cs = earlier @ (name, c) # later
           \<and> (\<forall>(n, d) \<in> set earlier. cache_match d req = None) \<longrightarrow>
           on_fetch h origin cs req =
             \<lparr>trace = [CachesMatch req], caches = cs, outcome = Responded (Some entry)\<rparr>"
    using before by blast
  ultimately show ?thesis by blast
qed

theorem fetch_hit_returns_cached_witness:
  "on_fetch online app_origin layered (get_request ''https://app.example/index.html#top'') =
     \<lparr>trace = [CachesMatch (get_request ''https://app.example/index.html#top'')],
      caches = layered, outcome = Responded (Some (page ''https://app.example/index.html''))\<rparr>"
proof -
  have origin: "url_origin (url (get_request ''https://app.example/index.html#top'')) = app_origin"
    by (simp add: url_origin_def app_origin_def get_request_def)
  have stored: "(CACHE_NAME, [(''https://app.example/index.html'',
        page ''https://app.example/index.html'')]) \<in> set layered"
    by (simp add: layered_def)
  have entry: "cache_match [(''https://app.example/index.html'',
        page ''https://app.example/index.html'')]
      (get_request ''https://app.example/index.html#top'')
      = Some (page ''https://app.example/index.html'')"
    by (simp add: cache_match_def get_request_def without_fragments_def strip_fragment_def)
  have only: "\<forall>(n, d) \<in> set layered.
      cache_match d (get_request ''https://app.example/index.html#top'') = None
      \<or> cache_match d (get_request ''https://app.example/index.html#top'')
          = Some (page ''https://app.example/index.html'')"
    by (simp add: layered_def cache_match_def get_request_def without_fragments_def
        strip_fragment_def)
  show ?thesis
    using fetch_hit_returns_cached[OF origin stored entry, of online] only by blast
qed

text \<open>
  A same-origin GET request with no cached entry whose network fetch succeeds: a
  response with status 200 and type 'basic' is returned, and the handler opens the
  current cache and puts a clone of it under the request, after which the current cache
  answers the request with it; any other response is returned after the lookup and the
  fetch alone, with no cache opened and nothing written.
\<close>

lemma fetch_miss_get:
  assumes "url_origin (url req) = origin"
    and "caches_match cs req = None"
    and "network h req = Fulfilled (Some r)"
    and "req_method req = ''GET''"
  shows "(status r = 200 \<and> rtype r = ''basic'' \<longrightarrow>
            on_fetch h origin cs req =
              \<lparr>trace = [CachesMatch req, Fetch req, CachesOpen CACHE_NAME,
                         CachePut CACHE_NAME req r],
               caches = store_clone cs req r, outcome = Responded (Some r)\<rparr>
            \<and> cache_match (cache_of (store_clone cs req r) CACHE_NAME) req = Some r)
     \<and> (status r \<noteq> 200 \<or> rtype r \<noteq> ''basic'' \<longrightarrow>
            on_fetch h origin cs req =
              \<lparr>trace = [CachesMatch req, Fetch req], caches = cs,
               outcome = Responded (Some r)\<rparr>)"
  using same_origin_startsWith[OF assms(1)] assms(2,3) store_clone_get[OF assms(4)]
  by (auto simp: on_fetch_def)

text \<open>
  C2, at an input where the code departs from it: a same-origin POST request with no
  cached entry, answered by the network with a 200 basic response. The response is
  returned and lines 94 to 97 open the current cache and call \<open>cache.put\<close> with the
  request and the clone, as for every 200 basic response; the host rejects the put of a
  request that is not a GET, nobody handles the rejection, and the current cache holds
  no entry for the request afterwards.
\<close>

theorem fetch_post_not_stored:
  "url_origin (url (post_request ''https://app.example/api/log'')) = app_origin
   \<and> caches_match [] (post_request ''https://app.example/api/log'') = None
   \<and> network online (post_request ''https://app.example/api/log'')
        = Fulfilled (Some (page ''https://app.example/api/log''))
   \<and> status (page ''https://app.example/api/log'') = 200
   \<and> rtype (page ''https://app.example/api/log'') = ''basic''
   \<and> on_fetch online app_origin [] (post_request ''https://app.example/api/log'') =
       \<lparr>trace = [CachesMatch (post_request ''https://app.example/api/log''),
                  Fetch (post_request ''https://app.example/api/log''),
                  CachesOpen CACHE_NAME,
                  CachePut CACHE_NAME (post_request ''https://app.example/api/log'')
                    (page ''https://app.example/api/log'')],
        caches = [(CACHE_NAME, [])],
        outcome = Responded (Some (page ''https://app.example/api/log''))\<rparr>"
  by (simp add: on_fetch_def url_origin_def app_origin_def post_request_def online_def page_def
      startsWith_def store_clone_def caches_open_def cache_of_def cache_put_def)

theorem fetch_post_not_stored_witness:
  "cache_of (caches (on_fetch online app_origin []
      (post_request ''https://app.example/api/log''))) CACHE_NAME = []"
  using fetch_post_not_stored by (simp add: cache_of_def)

text \<open>
  C3, at an input where the code departs from it. The worker's origin is
  \<open>http://localhost\<close>; the request goes to \<open>http://localhost:8080\<close>, another origin,
  whose text starts with the worker's. The handler intercepts: it reads the cache
  storage, fetches, and answers the request itself.
\<close>

theorem fetch_other_port_intercepted:
  "url_origin (url api_request) = ''http://localhost:8080''
   \<and> url_origin (url api_request) \<noteq> local_origin
   \<and> on_fetch local_host local_origin [] api_request =
       \<lparr>trace = [CachesMatch api_request, Fetch api_request], caches = [],
        outcome = Responded (Some api_response)\<rparr>"
  by (simp add: on_fetch_def url_origin_def local_origin_def api_request_def get_request_def
      local_host_def online_def api_response_def startsWith_def)

theorem fetch_other_port_intercepted_witness:
  "outcome (on_fetch local_host local_origin [] api_request) \<noteq> NotIntercepted"
  using fetch_other_port_intercepted by simp

text \<open>
  C4, as the code has it. On every intercepted same-origin request the lookup goes
  through the caches of the whole cache storage in the order of their creation, whatever
  their names: the response returned on a hit is the entry of the first cache that has
  one for the request, and the network is asked when no cache has one.
\<close>

theorem fetch_lookup_first_store:
  assumes "url_origin (url req) = origin"
  shows "(\<forall>earlier name c later cached.
            cs = earlier @ (name, c) # later
            \<and> (\<forall>(n, d) \<in> set earlier. cache_match d req = None)
            \<and> cache_match c req = Some cached \<longrightarrow>
            on_fetch h origin cs req =
              \<lparr>trace = [CachesMatch req], caches = cs, outcome = Responded (Some cached)\<rparr>)
     \<and> ((\<forall>(n, d) \<in> set cs. cache_match d req = None) \<longrightarrow>
            Fetch req \<in> set (trace (on_fetch h origin cs req)))"
proof -
  have pre: "startsWith (url req) origin"
    using assms by (rule same_origin_startsWith)
  have hit: "on_fetch h origin cs req =
        \<lparr>trace = [CachesMatch req], caches = cs, outcome = Responded (Some cached)\<rparr>"
    if "cs = earlier @ (name, c) # later"
      and "\<forall>(n, d) \<in> set earlier. cache_match d req = None"
      and "cache_match c req = Some cached"
    for earlier name c later cached
    using on_fetch_hit[OF pre] caches_match_first[OF that(2,3)] that(1) by simp
  have miss: "Fetch req \<in> set (trace (on_fetch h origin cs req))"
    if "\<forall>(n, d) \<in> set cs. cache_match d req = None"
  proof -
    from that have "caches_match cs req = None"
      by (simp add: caches_match_None_iff)
    with pre show ?thesis
      by (auto simp: on_fetch_def split: fetch_result.splits option.splits)
  qed
  from hit miss show ?thesis by blast
qed

theorem fetch_lookup_first_store_witness:
  "on_fetch online app_origin three_versions
      (get_request ''https://app.example/core/ui.js#menu'') =
     \<lparr>trace = [CachesMatch (get_request ''https://app.example/core/ui.js#menu'')],
      caches = three_versions, outcome = Responded (Some stale_page)\<rparr>
   \<and> Fetch (get_request ''https://app.example/index.html'')
       \<in> set (trace (on_fetch online app_origin three_versions
                 (get_request ''https://app.example/index.html'')))"
proof -
  have "three_versions = [(''daily-tracker-v1.0'', [])]
      @ (''daily-tracker-v2.0'', [(''https://app.example/core/ui.js'', stale_page)])
      # [(CACHE_NAME, [])]"
    by (simp add: three_versions_def)
  moreover have "\<forall>(n, d) \<in> set [(''daily-tracker-v1.0'', [])].
      cache_match d (get_request ''https://app.example/core/ui.js#menu'') = None"
    by (simp add: cache_match_def without_fragments_def)
  moreover have "cache_match [(''https://app.example/core/ui.js'', stale_page)]
      (get_request ''https://app.example/core/ui.js#menu'') = Some stale_page"
    by (simp add: cache_match_def get_request_def without_fragments_def strip_fragment_def)
  moreover have "url_origin (url (get_request ''https://app.example/core/ui.js#menu''))
      = app_origin"
    by (simp add: url_origin_def app_origin_def get_request_def)
  ultimately have hit: "on_fetch online app_origin three_versions
      (get_request ''https://app.example/core/ui.js#menu'') =
     \<lparr>trace = [CachesMatch (get_request ''https://app.example/core/ui.js#menu'')],
      caches = three_versions, outcome = Responded (Some stale_page)\<rparr>"
    using fetch_lookup_first_store[of "get_request ''https://app.example/core/ui.js#menu''"
        app_origin three_versions online] by blast
  have "url_origin (url (get_request ''https://app.example/index.html'')) = app_origin"
    by (simp add: url_origin_def app_origin_def get_request_def)
  moreover have "\<forall>(n, d) \<in> set three_versions.
      cache_match d (get_request ''https://app.example/index.html'') = None"
    by (simp add: three_versions_def cache_match_def get_request_def without_fragments_def
        strip_fragment_def)
  ultimately have miss: "Fetch (get_request ''https://app.example/index.html'')
       \<in> set (trace (on_fetch online app_origin three_versions
                 (get_request ''https://app.example/index.html'')))"
    using fetch_lookup_first_store[of "get_request ''https://app.example/index.html''"
        app_origin three_versions online] by blast
  from hit miss show ?thesis by simp
qed

text \<open>
  Against C4 as stated: the current cache has no entry for the request, a cache of an
  earlier version has one, and the handler answers with that one.
\<close>

theorem fetch_hit_from_old_store:
  "url_origin (url (get_request ''https://app.example/core/ui.js'')) = app_origin
   \<and> cache_match (cache_of two_versions CACHE_NAME)
        (get_request ''https://app.example/core/ui.js'') = None
   \<and> cache_match (cache_of two_versions ''daily-tracker-v2.0'')
        (get_request ''https://app.example/core/ui.js'') = Some stale_page
   \<and> ''daily-tracker-v2.0'' \<noteq> CACHE_NAME
   \<and> on_fetch online app_origin two_versions (get_request ''https://app.example/core/ui.js'') =
       \<lparr>trace = [CachesMatch (get_request ''https://app.example/core/ui.js'')],
        caches = two_versions, outcome = Responded (Some stale_page)\<rparr>"
  by (simp add: on_fetch_def url_origin_def app_origin_def get_request_def two_versions_def
      cache_of_def cache_match_def CACHE_NAME_def startsWith_def without_fragments_def
      strip_fragment_def)

subsection \<open>The activate handler\<close>

lemma host_delete_filter:
  "host_delete h key cs = filter (\<lambda>(n, c). \<not> (n = key \<and> delete_ok h key)) cs"
proof (cases "delete_ok h key")
  case True
  then show ?thesis
    by (simp add: host_delete_def caches_delete_def AList.delete_eq case_prod_unfold) (metis)
next
  case False
  then show ?thesis
    by (simp add: host_delete_def)
qed

lemma fold_host_delete:
  "fold (host_delete h) keys cs = filter (\<lambda>(n, c). \<not> (n \<in> set keys \<and> delete_ok h n)) cs"
proof (induction keys arbitrary: cs)
  case Nil
  then show ?case by simp
next
  case (Cons key keys)
  have "fold (host_delete h) (key # keys) cs
      = filter (\<lambda>(n, c). \<not> (n \<in> set keys \<and> delete_ok h n))
          (filter (\<lambda>(n, c). \<not> (n = key \<and> delete_ok h key)) cs)"
    by (simp only: fold_simps Cons.IH host_delete_filter)
  also have "\<dots> = filter (\<lambda>(n, c). \<not> (n \<in> set (key # keys) \<and> delete_ok h n)) cs"
    unfolding filter_filter by (rule filter_cong) auto
  finally show ?case .
qed

lemma activate_caches:
  "caches (on_activate h cs) = filter (\<lambda>(n, c). n = CACHE_NAME \<or> \<not> delete_ok h n) cs"
proof -
  have "caches (on_activate h cs) = fold (host_delete h) (attempted (caches_keys cs)) cs"
    by (simp add: on_activate_def Let_def)
  also have "\<dots> = filter (\<lambda>(n, c). \<not> (n \<in> set (attempted (caches_keys cs)) \<and> delete_ok h n)) cs"
    by (rule fold_host_delete)
  also have "\<dots> = filter (\<lambda>(n, c). n = CACHE_NAME \<or> \<not> delete_ok h n) cs"
    by (rule filter_cong) (auto simp: attempted_def caches_keys_def rev_image_eqI)
  finally show ?thesis .
qed

lemma activate_trace_deletes:
  "key \<in> set (caches_keys cs) \<Longrightarrow> key \<noteq> CACHE_NAME \<Longrightarrow>
     CachesDelete key \<in> set (trace (on_activate h cs))"
  by (auto simp: on_activate_def Let_def remove_old_def)

text \<open>
  C5. When every deletion the activate handler attempts succeeds, no cache with a name
  other than the current one is left. The deletions are independent: whatever the host
  does with the others, the deletion of every cache with another name is called, and
  the storage afterwards is the storage before without exactly the caches whose own
  deletion succeeded.
\<close>

theorem activate_removes_old:
  "((\<forall>key \<in> set (attempted (caches_keys cs)). delete_ok h key) \<longrightarrow>
      (\<forall>name \<in> set (caches_keys (caches (on_activate h cs))). name = CACHE_NAME))
   \<and> (\<forall>key \<in> set (caches_keys cs). key \<noteq> CACHE_NAME \<longrightarrow>
         CachesDelete key \<in> set (trace (on_activate h cs)))
   \<and> caches (on_activate h cs) = filter (\<lambda>(name, c). name = CACHE_NAME \<or> \<not> delete_ok h name) cs"
proof (intro conjI impI ballI)
  fix name
  assume ok: "\<forall>key \<in> set (attempted (caches_keys cs)). delete_ok h key"
    and "name \<in> set (caches_keys (caches (on_activate h cs)))"
  then have "name \<in> set (caches_keys cs)" and "name = CACHE_NAME \<or> \<not> delete_ok h name"
    by (auto simp: activate_caches caches_keys_def)
  with ok show "name = CACHE_NAME"
    by (auto simp: attempted_def)
next
  fix key
  assume "key \<in> set (caches_keys cs)" and "key \<noteq> CACHE_NAME"
  then show "CachesDelete key \<in> set (trace (on_activate h cs))"
    by (rule activate_trace_deletes)
next
  show "caches (on_activate h cs) = filter (\<lambda>(name, c). name = CACHE_NAME \<or> \<not> delete_ok h name) cs"
    by (rule activate_caches)
qed

theorem activate_removes_old_witness:
  "caches_keys (caches (on_activate online three_versions)) = [CACHE_NAME]
   \<and> CachesDelete ''daily-tracker-v1.0'' \<in> set (trace (on_activate sticky three_versions))
   \<and> CachesDelete ''daily-tracker-v2.0'' \<in> set (trace (on_activate sticky three_versions))
   \<and> caches_keys (caches (on_activate sticky three_versions)) = [''daily-tracker-v1.0'', CACHE_NAME]"
  using activate_removes_old[of three_versions online] activate_removes_old[of three_versions sticky]
  by (simp add: three_versions_def caches_keys_def online_def sticky_def CACHE_NAME_def attempted_def)

subsection \<open>Populating the current cache: install and 'update-cache'\<close>

lemma store_all_other:
  "b \<notin> (\<lambda>(u, fr). strip_fragment u) ` set fetched \<Longrightarrow>
     map_of (without_fragments (store_all fetched c)) b = map_of (without_fragments c) b"
  by (induction fetched c rule: store_all.induct) (auto simp: put_entry_other)

lemma store_all_stored:
  "distinct (map (\<lambda>(u, fr). strip_fragment u) fetched) \<Longrightarrow> (u, Fulfilled (Some r)) \<in> set fetched
   \<Longrightarrow> map_of (without_fragments (store_all fetched c)) (strip_fragment u) = Some r"
  by (induction fetched c rule: store_all.induct)
    (auto simp: store_all_other put_entry_same rev_image_eqI)

lemma addAll_fails:
  "list_ex (\<lambda>u. \<not> addable (network h (asset_request h u))) urls
   \<Longrightarrow> cache_addAll h urls c = Inl TypeError"
  by (auto simp: cache_addAll_def Let_def list_ex_iff)

lemma addAll_stores:
  assumes "\<not> list_ex (\<lambda>u. \<not> addable (network h (asset_request h u))) urls"
    and "distinct (map (\<lambda>u. strip_fragment (resolve h u)) urls)"
  shows "\<exists>c'. cache_addAll h urls c = Inr c'
     \<and> (\<forall>u \<in> set urls. \<exists>r. network h (asset_request h u) = Fulfilled (Some r)
           \<and> cache_match c' (asset_request h u) = Some r)"
proof -
  let ?fetched = "map (\<lambda>q. (url q, network h q)) (map (asset_request h) urls)"
  have keys: "map (\<lambda>(u, fr). strip_fragment u) ?fetched
      = map (\<lambda>u. strip_fragment (resolve h u)) urls"
    by (simp add: asset_request_def comp_def)
  have run: "cache_addAll h urls c = Inr (store_all ?fetched c)"
    using assms by (auto simp: cache_addAll_def Let_def list_ex_iff keys simp del: map_map)
  have "\<exists>r. network h (asset_request h u) = Fulfilled (Some r)
          \<and> cache_match (store_all ?fetched c) (asset_request h u) = Some r"
    if "u \<in> set urls" for u
  proof -
    from assms(1) that have "addable (network h (asset_request h u))"
      by (auto simp: list_ex_iff)
    then obtain r where r: "network h (asset_request h u) = Fulfilled (Some r)"
      by (auto simp: addable_def split: fetch_result.splits option.splits)
    from that have "(url (asset_request h u), network h (asset_request h u)) \<in> set ?fetched"
      by force
    with r have "map_of (without_fragments (store_all ?fetched c))
        (strip_fragment (url (asset_request h u))) = Some r"
      using store_all_stored[of ?fetched "url (asset_request h u)" r c] assms(2) keys
      by (simp del: map_map)
    with r show ?thesis
      by (simp add: cache_match_def asset_request_def)
  qed
  with run show ?thesis by blast
qed

lemma populate_fails:
  "list_ex (\<lambda>u. \<not> addable (network h (asset_request h u))) FILES_TO_CACHE
   \<Longrightarrow> populate h cs = (caches_open CACHE_NAME cs, Some TypeError)"
  by (simp add: populate_def Let_def addAll_fails)

lemma populate_stores:
  assumes "\<not> list_ex (\<lambda>u. \<not> addable (network h (asset_request h u))) FILES_TO_CACHE"
    and "distinct (map (\<lambda>u. strip_fragment (resolve h u)) FILES_TO_CACHE)"
  shows "snd (populate h cs) = None
     \<and> (\<forall>u \<in> set FILES_TO_CACHE. \<exists>r. network h (asset_request h u) = Fulfilled (Some r)
           \<and> cache_match (cache_of (fst (populate h cs)) CACHE_NAME) (asset_request h u) = Some r)"
proof -
  obtain c' where c': "cache_addAll h FILES_TO_CACHE
        (cache_of (caches_open CACHE_NAME cs) CACHE_NAME) = Inr c'"
    and all: "\<forall>u \<in> set FILES_TO_CACHE. \<exists>r. network h (asset_request h u) = Fulfilled (Some r)
           \<and> cache_match c' (asset_request h u) = Some r"
    using addAll_stores[OF assms] by blast
  have "populate h cs = (AList.update CACHE_NAME c' (caches_open CACHE_NAME cs), None)"
    by (simp add: populate_def Let_def c')
  with all show ?thesis
    by (simp add: cache_of_update)
qed

lemma install_run:
  "outcome (on_install h cs) = WaitFulfilled \<and> caches (on_install h cs) = fst (populate h cs)
   \<and> (\<forall>e. snd (populate h cs) = Some e \<longrightarrow>
        ConsoleError ''[Service Worker] Precaching failed:'' e \<in> set (trace (on_install h cs)))"
  by (cases "populate h cs") (auto simp: on_install_def Let_def split: option.splits)

text \<open>
  C6, as the code has it. Whatever happens while the asset list is added, the promise
  the install handler passes to \<open>waitUntil\<close> fulfils, so installation is not aborted, and
  a failure is logged. The population is all or nothing: when the fetch of one asset
  fails, the current cache has been opened and the storage is otherwise as before, with
  none of the assets of this attempt; when every asset is fetched (and no two resolve to
  one URL, fragments apart), every asset is in the current cache with its response.
\<close>

theorem install_all_or_nothing:
  "outcome (on_install h cs) = WaitFulfilled
   \<and> (\<forall>e. snd (populate h cs) = Some e \<longrightarrow>
        ConsoleError ''[Service Worker] Precaching failed:'' e \<in> set (trace (on_install h cs)))
   \<and> (list_ex (\<lambda>u. \<not> addable (network h (asset_request h u))) FILES_TO_CACHE \<longrightarrow>
        snd (populate h cs) = Some TypeError
        \<and> caches (on_install h cs) = caches_open CACHE_NAME cs)
   \<and> (\<not> list_ex (\<lambda>u. \<not> addable (network h (asset_request h u))) FILES_TO_CACHE
        \<and> distinct (map (\<lambda>u. strip_fragment (resolve h u)) FILES_TO_CACHE) \<longrightarrow>
        (\<forall>u \<in> set FILES_TO_CACHE. \<exists>r. network h (asset_request h u) = Fulfilled (Some r)
           \<and> cache_match (cache_of (caches (on_install h cs)) CACHE_NAME) (asset_request h u)
               = Some r))"
  using install_run[of h cs] populate_fails[of h cs] populate_stores[of h cs]
  by auto

lemma one_missing_fails:
  "list_ex (\<lambda>u. \<not> addable (network one_missing (asset_request one_missing u))) FILES_TO_CACHE"
proof -
  have "''index.html'' \<in> set FILES_TO_CACHE"
    by (simp add: FILES_TO_CACHE_def)
  moreover have "\<not> addable (network one_missing (asset_request one_missing ''index.html''))"
    by (simp add: one_missing_def online_def asset_request_def app_resolve_def
        app_origin_def startsWith_def addable_def)
  ultimately show ?thesis
    unfolding list_ex_iff by (rule rev_bexI)
qed

lemma online_addable: "addable (network online q)"
  by (simp add: online_def page_def addable_def)

lemma online_all_addable:
  "\<not> list_ex (\<lambda>u. \<not> addable (network online (asset_request online u))) FILES_TO_CACHE"
  by (simp add: list_ex_iff online_addable)

lemma resolved_assets:
  "map (resolve online) FILES_TO_CACHE =
     [ ''https://app.example/'',
       ''https://app.example/index.html'',
       ''https://app.example/core/core-styles.css'',
       ''https://app.example/core/core-scripts.js'',
       ''https://app.example/core/ui.js'',
       ''https://app.example/trackers/trackers-scripts.js'',
       ''https://app.example/trackers/trackers-styles.css'',
       ''https://app.example/workouts/workouts-scripts.js'',
       ''https://app.example/workouts/workouts-styles.css'',
       ''https://app.example/habits/habits-scripts.js'',
       ''https://app.example/habits/habits-styles.css'',
       ''https://app.example/reminders/reminders-scripts.js'',
       ''https://app.example/reminders/reminders-styles.css'',
       ''https://app.example/manifest.json'',
       ''https://app.example/icons/icon-192.png'',
       ''https://app.example/icons/icon-512.png'',
       ''https://fonts.googleapis.com/css2?family=Inter:wght@400;500;600;700&display=swap'',
       ''https://fonts.googleapis.com/icon?family=Material+Icons+Round'' ]"
  by (simp add: FILES_TO_CACHE_def online_def app_resolve_def app_origin_def startsWith_def)

lemma online_distinct:
  "distinct (map (\<lambda>u. strip_fragment (resolve online u)) FILES_TO_CACHE)"
proof -
  have "map (\<lambda>u. strip_fragment (resolve online u)) FILES_TO_CACHE
      = map strip_fragment (map (resolve online) FILES_TO_CACHE)"
    by simp
  then show ?thesis
    unfolding resolved_assets by (simp add: strip_fragment_def)
qed

theorem install_all_or_nothing_witness:
  "outcome (on_install one_missing []) = WaitFulfilled
   \<and> ConsoleError ''[Service Worker] Precaching failed:'' TypeError
        \<in> set (trace (on_install one_missing []))
   \<and> caches (on_install one_missing []) = [(CACHE_NAME, [])]
   \<and> cache_match (cache_of (caches (on_install online [])) CACHE_NAME)
        (asset_request online ''core/ui.js'') = Some (page ''https://app.example/core/ui.js'')"
proof -
  have ui: "''core/ui.js'' \<in> set FILES_TO_CACHE"
    by (simp add: FILES_TO_CACHE_def)
  have page: "network online (asset_request online ''core/ui.js'')
      = Fulfilled (Some (page ''https://app.example/core/ui.js''))"
    by (simp add: online_def asset_request_def app_resolve_def app_origin_def startsWith_def)
  have "\<exists>r. network online (asset_request online ''core/ui.js'') = Fulfilled (Some r)
      \<and> cache_match (cache_of (caches (on_install online [])) CACHE_NAME)
            (asset_request online ''core/ui.js'') = Some r"
    using install_all_or_nothing[of online "[]"] online_all_addable online_distinct ui
    by blast
  with page have stored: "cache_match (cache_of (caches (on_install online [])) CACHE_NAME)
        (asset_request online ''core/ui.js'') = Some (page ''https://app.example/core/ui.js'')"
    by simp
  show ?thesis
    using install_all_or_nothing[of one_missing "[]"] one_missing_fails stored
    by (simp add: caches_open_def)
qed

text \<open>
  Against C6 as stated: one asset, \<open>index.html\<close>, cannot be reached; the start page
  \<open>/\<close> can, and after install the current cache exists and is empty, so it does not hold
  the asset that did succeed.
\<close>

theorem install_one_missing_stores_nothing:
  "network one_missing (asset_request one_missing ''index.html'') = Rejected TypeError
   \<and> network one_missing (asset_request one_missing ''/'')
        = Fulfilled (Some (page ''https://app.example/''))
   \<and> addable (network one_missing (asset_request one_missing ''/''))
   \<and> caches (on_install one_missing []) = [(CACHE_NAME, [])]
   \<and> cache_match (cache_of (caches (on_install one_missing [])) CACHE_NAME)
        (asset_request one_missing ''/'') = None
   \<and> outcome (on_install one_missing []) = WaitFulfilled"
proof -
  have "populate one_missing [] = (caches_open CACHE_NAME [], Some TypeError)"
    using one_missing_fails by (rule populate_fails)
  then have "on_install one_missing [] =
      \<lparr>trace = [ConsoleLog ''[Service Worker] Install'' ArgNone, SkipWaiting,
                 CachesOpen CACHE_NAME,
                 ConsoleLog ''[Service Worker] Caching app shell and content'' ArgNone,
                 CacheAddAll CACHE_NAME FILES_TO_CACHE,
                 ConsoleError ''[Service Worker] Precaching failed:'' TypeError],
       caches = [(CACHE_NAME, [])], outcome = WaitFulfilled\<rparr>"
    by (simp add: on_install_def caches_open_def)
  then show ?thesis
    by (simp add: one_missing_def online_def asset_request_def app_resolve_def app_origin_def
        startsWith_def addable_def page_def url_origin_def cache_of_def cache_match_def
        without_fragments_def)
qed

text \<open>
  C7, at an input where the code departs from it: the 'update-cache' message when one
  asset cannot be reached. The promise passed to \<open>waitUntil\<close> rejects with the TypeError
  of \<open>addAll\<close>, and the handler logs nothing after the message itself; the install
  handler, in the same situation, logs the failure and the promise fulfils.
\<close>

theorem update_cache_failure_propagates:
  "on_message one_missing [] update_cache_message =
     \<lparr>trace = [ConsoleLog ''[Service Worker] Message received:'' (ArgVal update_cache_message),
                CachesOpen CACHE_NAME, CacheAddAll CACHE_NAME FILES_TO_CACHE],
      caches = [(CACHE_NAME, [])], outcome = WaitRejected TypeError\<rparr>"
proof -
  have "populate one_missing [] = (caches_open CACHE_NAME [], Some TypeError)"
    using one_missing_fails by (rule populate_fails)
  then show ?thesis
    by (simp add: on_message_def update_cache_message_def get_prop_def nullish_def caches_open_def)
qed

text \<open>What 'update-cache' does in general, and that it adds every asset when all of them
  can be fetched.\<close>

lemma message_update_cache:
  assumes "own_prop d ''type'' = JStr ''update-cache''"
  shows "caches (on_message h cs d) = fst (populate h cs)
     \<and> outcome (on_message h cs d)
         = (case snd (populate h cs) of None \<Rightarrow> WaitFulfilled | Some e \<Rightarrow> WaitRejected e)
     \<and> trace (on_message h cs d) =
         [ConsoleLog ''[Service Worker] Message received:'' (ArgVal d),
          CachesOpen CACHE_NAME, CacheAddAll CACHE_NAME FILES_TO_CACHE]"
proof -
  from assms have "\<not> nullish d"
    by (auto simp: nullish_def)
  with assms show ?thesis
    by (cases "populate h cs") (auto simp: on_message_def get_prop_def Let_def split: option.splits)
qed

lemma update_cache_readds:
  assumes "own_prop d ''type'' = JStr ''update-cache''"
    and "\<not> list_ex (\<lambda>u. \<not> addable (network h (asset_request h u))) FILES_TO_CACHE"
    and "distinct (map (\<lambda>u. strip_fragment (resolve h u)) FILES_TO_CACHE)"
  shows "outcome (on_message h cs d) = WaitFulfilled
     \<and> (\<forall>u \<in> set FILES_TO_CACHE. \<exists>r. network h (asset_request h u) = Fulfilled (Some r)
           \<and> cache_match (cache_of (caches (on_message h cs d)) CACHE_NAME) (asset_request h u)
               = Some r)"
  using message_update_cache[OF assms(1), of h cs] populate_stores[OF assms(2,3), of cs]
  by simp

subsection \<open>The push handler\<close>

text \<open>
  C8. For every push event whose payload does not parse as JSON (\<open>json()\<close> throws), the
  handler logs the error, does not throw, and asks for a notification with the default
  title and the default options: default body and tag, no data.
\<close>

theorem push_malformed_defaults:
  "on_push (Some (PushMessageData (Inl e))) =
     ([ConsoleLog ''[Service Worker] Push received:'' ArgEvent,
       ConsoleError ''[Service Worker] Error parsing push data:'' e,
       ShowNotification default_title default_options],
      WaitFulfilled)
   \<and> default_title = JStr ''Daily Tracker''
   \<and> body default_options = JStr ''Time to check your health reminders!''
   \<and> tag default_options = JStr ''reminder-notification''
   \<and> data default_options = None"
  by (simp add: on_push_def push_try_def default_title_def default_options_def)

theorem push_malformed_defaults_witness:
  "on_push (Some (PushMessageData (Inl SyntaxError))) =
     ([ConsoleLog ''[Service Worker] Push received:'' ArgEvent,
       ConsoleError ''[Service Worker] Error parsing push data:'' SyntaxError,
       ShowNotification (JStr ''Daily Tracker'')
         \<lparr>body = JStr ''Time to check your health reminders!'',
          icon = ''icons/icon-192.png'', badge = ''icons/icon-192.png'',
          tag = JStr ''reminder-notification'', requireInteraction = False,
          actions = [(''open'', ''Open App''), (''dismiss'', ''Dismiss'')],
          data = None\<rparr>],
      WaitFulfilled)"
  using push_malformed_defaults[of SyntaxError]
  by (simp add: default_title_def default_options_def)

subsection \<open>The notificationclick handler\<close>

lemma find_first:
  "(\<forall>c \<in> set earlier. \<not> P c) \<Longrightarrow> P client \<Longrightarrow> find P (earlier @ client # later) = Some client"
  by (induction earlier) auto

lemma find_Some_holds: "find P xs = Some x \<Longrightarrow> P x"
  by (induction xs) (auto split: if_splits)

lemma under_scope_includes: "under_scope scope u \<Longrightarrow> str_includes u scope"
  by (cases u) (auto simp: under_scope_def)

lemma click_trace:
  "action ev \<noteq> ''dismiss'' \<Longrightarrow>
   on_notificationclick h scope clientList ev =
     ([ConsoleLog ''[Service Worker] Notification click:'' ArgEvent, NotificationClose,
       ClientsMatchAll ''window'' True]
      @ (case find (matches_scope scope) clientList of
           Some client \<Rightarrow>
             (if own_prop (js_or (notification_data ev) (JObj [])) ''type'' = JStr ''reminder''
              then [PostMessage client (click_message (js_or (notification_data ev) (JObj [])))]
              else [])
             @ [Focus client]
         | None \<Rightarrow> [OpenWindow (open_url h (js_or (notification_data ev) (JObj [])))]),
      WaitFulfilled)"
  by (simp add: on_notificationclick_def Let_def)

text \<open>
  What the handler does on a click that is not the 'dismiss' action, for every list of
  windows: the first window that passes the test of line 183 gets the message, if the
  notification's data marks a reminder, and then the focus; a window whose URL does not
  contain the scope's text gets neither.
\<close>

lemma click_first_including:
  assumes "action ev \<noteq> ''dismiss''"
  shows "(\<forall>earlier client later.
            clientList = earlier @ client # later
            \<and> (\<forall>c \<in> set earlier. \<not> matches_scope scope c)
            \<and> matches_scope scope client \<longrightarrow>
            on_notificationclick h scope clientList ev =
              ([ConsoleLog ''[Service Worker] Notification click:'' ArgEvent, NotificationClose,
                ClientsMatchAll ''window'' True]
               @ (if own_prop (js_or (notification_data ev) (JObj [])) ''type'' = JStr ''reminder''
                  then [PostMessage client
                          (JObj [(''type'', JStr ''notification-click''),
                                 (''action'', JStr ''open-reminders''),
                                 (''reminderId'',
                                  own_prop (js_or (notification_data ev) (JObj []))
                                    ''reminderId'')])]
                  else [])
               @ [Focus client],
               WaitFulfilled))
     \<and> (\<forall>c :: window_client. \<not> str_includes (client_url c) scope \<longrightarrow>
            Focus c \<notin> set (fst (on_notificationclick h scope clientList ev))
            \<and> (\<forall>m. PostMessage c m \<notin> set (fst (on_notificationclick h scope clientList ev))))"
proof (intro conjI allI impI)
  fix earlier client later
  assume "clientList = earlier @ client # later
            \<and> (\<forall>c \<in> set earlier. \<not> matches_scope scope c)
            \<and> matches_scope scope client"
  then have "find (matches_scope scope) clientList = Some client"
    using find_first[of earlier "matches_scope scope" client later] by simp
  then show "on_notificationclick h scope clientList ev =
              ([ConsoleLog ''[Service Worker] Notification click:'' ArgEvent, NotificationClose,
                ClientsMatchAll ''window'' True]
               @ (if own_prop (js_or (notification_data ev) (JObj [])) ''type'' = JStr ''reminder''
                  then [PostMessage client
                          (JObj [(''type'', JStr ''notification-click''),
                                 (''action'', JStr ''open-reminders''),
                                 (''reminderId'',
                                  own_prop (js_or (notification_data ev) (JObj []))
                                    ''reminderId'')])]
                  else [])
               @ [Focus client],
               WaitFulfilled)"
    by (simp add: click_trace[OF assms] click_message_def)
next
  fix c :: window_client
  assume out: "\<not> str_includes (client_url c) scope"
  show "Focus c \<notin> set (fst (on_notificationclick h scope clientList ev))"
    using out find_Some_holds[of "matches_scope scope" clientList]
    by (auto simp: click_trace[OF assms] matches_scope_def split: option.splits if_splits)
next
  fix c :: window_client and m
  assume out: "\<not> str_includes (client_url c) scope"
  show "PostMessage c m \<notin> set (fst (on_notificationclick h scope clientList ev))"
    using out find_Some_holds[of "matches_scope scope" clientList]
    by (auto simp: click_trace[OF assms] matches_scope_def split: option.splits if_splits)
qed

lemma click_first_including_example:
  "on_notificationclick online app_scope [settings_window, tracker_window] reminder_click =
     ([ConsoleLog ''[Service Worker] Notification click:'' ArgEvent, NotificationClose,
       ClientsMatchAll ''window'' True,
       PostMessage tracker_window
         (JObj [(''type'', JStr ''notification-click''), (''action'', JStr ''open-reminders''),
                (''reminderId'', JStr ''7'')]),
       Focus tracker_window],
      WaitFulfilled)"
proof -
  have open_action: "action reminder_click \<noteq> ''dismiss''"
    by (simp add: reminder_click_def)
  have passed: "\<forall>c \<in> set [settings_window]. \<not> matches_scope app_scope c"
    by (simp add: matches_scope_def settings_window_def app_scope_def)
  have found: "matches_scope app_scope tracker_window"
    by (simp add: matches_scope_def tracker_window_def app_scope_def)
  have marked: "own_prop (js_or (notification_data reminder_click) (JObj [])) ''type''
      = JStr ''reminder''"
    and rid: "own_prop (js_or (notification_data reminder_click) (JObj [])) ''reminderId''
      = JStr ''7''"
    by (simp_all add: reminder_click_def js_or_def)
  show ?thesis
    using click_first_including[OF open_action,
        of "[settings_window, tracker_window]" app_scope online,
        THEN conjunct1, rule_format, of "[settings_window]" tracker_window "[]"]
      passed found
    by (simp add: marked rid)
qed

text \<open>
  C9, at an input where the code departs from it. The handler asks for the windows with
  \<open>type: 'window'\<close> and \<open>includeUncontrolled: true\<close>. In the list, a window whose URL
  is not under the registration scope, but names the scope in its query, stands before
  the application's window, which is under the scope. The test of line 183 takes the
  scope's text anywhere in the URL, so the window outside the scope is the one that gets
  the message and the focus.
\<close>

theorem click_focuses_window_outside_scope:
  "\<not> under_scope app_scope (client_url blog_window)
   \<and> under_scope app_scope (client_url tracker_window)
   \<and> action reminder_click \<noteq> ''dismiss''
   \<and> on_notificationclick online app_scope [blog_window, tracker_window] reminder_click =
       ([ConsoleLog ''[Service Worker] Notification click:'' ArgEvent, NotificationClose,
         ClientsMatchAll ''window'' True,
         PostMessage blog_window
           (JObj [(''type'', JStr ''notification-click''), (''action'', JStr ''open-reminders''),
                  (''reminderId'', JStr ''7'')]),
         Focus blog_window],
        WaitFulfilled)"
  by (simp add: on_notificationclick_def under_scope_def app_scope_def blog_window_def
      tracker_window_def reminder_click_def matches_scope_def js_or_def click_message_def)

subsection \<open>The message handler\<close>

text \<open>The handler throws exactly for null and undefined.\<close>

lemma message_throws_iff:
  "(\<exists>e. outcome (on_message h cs d) = Threw e) \<longleftrightarrow> nullish d"
  by (cases "populate h cs")
    (auto simp: on_message_def get_prop_def Let_def split: option.splits)

text \<open>
  C10. For a message event whose data is null or undefined the handler throws a
  TypeError at the destructuring: the only host call before it is the log of the
  message, no branch of the switch runs, and the storage is unchanged. For a message
  that is an object, whatever its properties, the handler does not throw.
\<close>

theorem message_null_throws:
  "on_message h cs JNull =
     \<lparr>trace = [ConsoleLog ''[Service Worker] Message received:'' (ArgVal JNull)],
      caches = cs, outcome = Threw TypeError\<rparr>
   \<and> on_message h cs JUndefined =
     \<lparr>trace = [ConsoleLog ''[Service Worker] Message received:'' (ArgVal JUndefined)],
      caches = cs, outcome = Threw TypeError\<rparr>
   \<and> (\<forall>fs e. outcome (on_message h cs (JObj fs)) \<noteq> Threw e)"
proof (intro conjI allI)
  show "on_message h cs JNull =
     \<lparr>trace = [ConsoleLog ''[Service Worker] Message received:'' (ArgVal JNull)],
      caches = cs, outcome = Threw TypeError\<rparr>"
    by (simp add: on_message_def get_prop_def nullish_def)
  show "on_message h cs JUndefined =
     \<lparr>trace = [ConsoleLog ''[Service Worker] Message received:'' (ArgVal JUndefined)],
      caches = cs, outcome = Threw TypeError\<rparr>"
    by (simp add: on_message_def get_prop_def nullish_def)
  show "outcome (on_message h cs (JObj fs)) \<noteq> Threw e" for fs e
    using message_throws_iff[of h cs "JObj fs"] by (auto simp: nullish_def)
qed

theorem message_null_throws_witness:
  "outcome (on_message online warm JNull) = Threw TypeError
   \<and> caches (on_message online warm JNull) = warm
   \<and> outcome (on_message online warm (JObj [(''type'', JStr ''sing'')])) \<noteq> Threw TypeError"
  using message_null_throws[of online warm] by simp

end
